theory Spec2Isabelle
  imports Main "HOL-Library.Sublist"
begin

section \<open>Object stores\<close>

text \<open>
  The TypeScript sources create objects with \<^verbatim>\<open>new\<close>, keep references to them in
  fields and mutate them in place.  The objects of one class are kept in a list, a
  reference is an index into that list, and \<^verbatim>\<open>new\<close> appends: the reference it
  returns is the old length, so it differs from every reference handed out before.
  Strings and numbers are primitive values of the language and are stored in the
  fields themselves.  A reference that is not below the length of its list denotes no
  object; the language has no way to make one, and a statement that reads through a
  reference it did not allocate itself says that the reference denotes an object.
\<close>

type_synonym addr = nat

definition new_object :: "'o \<Rightarrow> 'o list \<Rightarrow> addr \<times> 'o list" where
  "new_object obj objs = (length objs, objs @ [obj])"

text \<open>In-place change of the object behind a reference.\<close>

definition modify :: "addr \<Rightarrow> ('o \<Rightarrow> 'o) \<Rightarrow> 'o list \<Rightarrow> 'o list" where
  "modify a f objs = objs[a := f (objs ! a)]"


section \<open>The part-list builder: \<^verbatim>\<open>Product\<close> and \<^verbatim>\<open>ConcreteBuilder\<close>\<close>

text \<open>
  \<^verbatim>\<open>class Product { private parts: string[] = []; add(part) { this.parts.push(part) } }\<close>
  The array is private and never handed out, so it is a field value of the product.
\<close>

record Product =
  parts :: "string list"

definition Product_new :: Product where
  "Product_new = \<lparr>parts = []\<rparr>"

definition add :: "string \<Rightarrow> Product \<Rightarrow> Product" where
  "add part this = this\<lparr>parts := parts this @ [part]\<rparr>"

text \<open>
  \<^verbatim>\<open>class ConcreteBuilder { private product!: Product; ... }\<close>
  The builder holds a reference to the product under construction.  The products live
  in a store, because \<^verbatim>\<open>getProduct\<close> hands that very reference to the caller.
\<close>

record ConcreteBuilder =
  product :: addr

type_synonym product_store = "Product list"

text \<open>
  \<^verbatim>\<open>reset() { this.product = new Product(); }\<close>
  The reference is the builder's only field, so the builder after \<^verbatim>\<open>reset\<close> does not
  depend on the builder before it.  The constructor does nothing but call \<^verbatim>\<open>reset\<close>.
\<close>

definition reset :: "product_store \<Rightarrow> ConcreteBuilder \<times> product_store" where
  "reset h = (case new_object Product_new h of (p, h') \<Rightarrow> (\<lparr>product = p\<rparr>, h'))"

definition ConcreteBuilder_new :: "product_store \<Rightarrow> ConcreteBuilder \<times> product_store" where
  "ConcreteBuilder_new h = reset h"

definition setPartA :: "ConcreteBuilder \<Rightarrow> product_store \<Rightarrow> product_store" where
  "setPartA this h = modify (product this) (add ''PartA'') h"

definition setPartB :: "ConcreteBuilder \<Rightarrow> product_store \<Rightarrow> product_store" where
  "setPartB this h = modify (product this) (add ''PartB'') h"

definition setPartC :: "ConcreteBuilder \<Rightarrow> product_store \<Rightarrow> product_store" where
  "setPartC this h = modify (product this) (add ''PartC'') h"

text \<open>
  \<^verbatim>\<open>getProduct() { const result = this.product; this.reset(); return result; }\<close>
\<close>

definition getProduct ::
  "ConcreteBuilder \<Rightarrow> product_store \<Rightarrow> addr \<times> ConcreteBuilder \<times> product_store" where
  "getProduct this h = (let result = product this in (result, reset h))"

text \<open>A sequence of calls of the three part setters on one builder.\<close>

datatype part_setter = SetPartA | SetPartB | SetPartC

fun call_part_setter :: "part_setter \<Rightarrow> ConcreteBuilder \<Rightarrow> product_store \<Rightarrow> product_store" where
  "call_part_setter SetPartA this h = setPartA this h"
| "call_part_setter SetPartB this h = setPartB this h"
| "call_part_setter SetPartC this h = setPartC this h"

fun call_part_setters ::
  "part_setter list \<Rightarrow> ConcreteBuilder \<Rightarrow> product_store \<Rightarrow> product_store" where
  "call_part_setters [] this h = h"
| "call_part_setters (c # cs) this h = call_part_setters cs this (call_part_setter c this h)"

text \<open>The part each setter adds.\<close>

fun part_added :: "part_setter \<Rightarrow> string" where
  "part_added SetPartA = ''PartA''"
| "part_added SetPartB = ''PartB''"
| "part_added SetPartC = ''PartC''"

text \<open>
  The parts of the product that \<^verbatim>\<open>getProduct\<close> returns after the calls \<open>cs\<close> on the
  builder \<open>this\<close>.
\<close>

definition built_parts :: "part_setter list \<Rightarrow> ConcreteBuilder \<times> product_store \<Rightarrow> string list" where
  "built_parts cs st =
     (case st of (this, h) \<Rightarrow>
        (case getProduct this (call_part_setters cs this h) of
           (result, this', h') \<Rightarrow> parts (h' ! result)))"


section \<open>Exceptions\<close>

text \<open>
  The sources throw with \<^verbatim>\<open>throw new Error(message)\<close>.  The language runtime itself
  throws a \<^verbatim>\<open>TypeError\<close> when a property is read from \<^verbatim>\<open>undefined\<close>; its message
  depends on the engine and is left out.  Every error object carries the name of its
  class in its \<^verbatim>\<open>name\<close> property.
\<close>

datatype exn = Error string | TypeError

fun exn_name :: "exn \<Rightarrow> string" where
  "exn_name (Error message) = ''Error''"
| "exn_name TypeError = ''TypeError''"


section \<open>The customer builder: \<^verbatim>\<open>Customer\<close>, \<^verbatim>\<open>CustomerBuilder\<close>, \<^verbatim>\<open>CustomerDirector\<close>\<close>

text \<open>\<^verbatim>\<open>class Customer implements ICustomer\<close>: four public, writable string fields.\<close>

record Customer =
  firstName :: string
  lastName :: string
  phoneNumber :: string
  email :: string

definition Customer_new :: "string \<Rightarrow> string \<Rightarrow> string \<Rightarrow> string \<Rightarrow> Customer" where
  "Customer_new firstName' lastName' phoneNumber' email' =
     \<lparr>Customer.firstName = firstName', Customer.lastName = lastName',
      Customer.phoneNumber = phoneNumber', Customer.email = email'\<rparr>"

text \<open>\<^verbatim>\<open>class CustomerBuilder\<close>: four private string fields, each initialised to \<^verbatim>\<open>''\<close>.\<close>

record CustomerBuilder =
  firstName :: string
  lastName :: string
  phoneNumber :: string
  email :: string

definition CustomerBuilder_init :: CustomerBuilder where
  "CustomerBuilder_init =
     \<lparr>CustomerBuilder.firstName = '''', CustomerBuilder.lastName = '''',
      CustomerBuilder.phoneNumber = '''', CustomerBuilder.email = ''''\<rparr>"

text \<open>
  Builders and customers are objects with identity: a director and its client share one
  builder, and every \<^verbatim>\<open>build\<close> hands out a customer that the caller may keep and write
  to.  The store holds the objects of both classes.
\<close>

record customer_store =
  builders :: "CustomerBuilder list"
  customers :: "Customer list"

definition CustomerBuilder_new :: "customer_store \<Rightarrow> addr \<times> customer_store" where
  "CustomerBuilder_new s =
     (case new_object CustomerBuilder_init (builders s) of
        (this, bs) \<Rightarrow> (this, s\<lparr>builders := bs\<rparr>))"

text \<open>
  \<^verbatim>\<open>setFirstName(firstName) { this.firstName = firstName; return this; }\<close>
  and likewise the other three setters: each returns the reference it was called on.
\<close>

definition setFirstName :: "addr \<Rightarrow> string \<Rightarrow> customer_store \<Rightarrow> addr \<times> customer_store" where
  "setFirstName this v s =
     (this, s\<lparr>builders := modify this (\<lambda>b. b\<lparr>CustomerBuilder.firstName := v\<rparr>) (builders s)\<rparr>)"

definition setLastName :: "addr \<Rightarrow> string \<Rightarrow> customer_store \<Rightarrow> addr \<times> customer_store" where
  "setLastName this v s =
     (this, s\<lparr>builders := modify this (\<lambda>b. b\<lparr>CustomerBuilder.lastName := v\<rparr>) (builders s)\<rparr>)"

definition setPhoneNumber :: "addr \<Rightarrow> string \<Rightarrow> customer_store \<Rightarrow> addr \<times> customer_store" where
  "setPhoneNumber this v s =
     (this, s\<lparr>builders := modify this (\<lambda>b. b\<lparr>CustomerBuilder.phoneNumber := v\<rparr>) (builders s)\<rparr>)"

definition setEmail :: "addr \<Rightarrow> string \<Rightarrow> customer_store \<Rightarrow> addr \<times> customer_store" where
  "setEmail this v s =
     (this, s\<lparr>builders := modify this (\<lambda>b. b\<lparr>CustomerBuilder.email := v\<rparr>) (builders s)\<rparr>)"

text \<open>\<^verbatim>\<open>reset()\<close> of \<^verbatim>\<open>CustomerBuilder\<close> assigns \<^verbatim>\<open>''\<close> to each of the four fields.\<close>

definition CustomerBuilder_reset :: "addr \<Rightarrow> customer_store \<Rightarrow> customer_store" where
  "CustomerBuilder_reset this s =
     s\<lparr>builders :=
         modify this
           (\<lambda>b. b\<lparr>CustomerBuilder.firstName := '''', CustomerBuilder.lastName := '''',
                  CustomerBuilder.phoneNumber := '''', CustomerBuilder.email := ''''\<rparr>)
           (builders s)\<rparr>"

text \<open>
  \<^verbatim>\<open>build() { const customer = new Customer(this.firstName, this.lastName,
  this.phoneNumber, this.email); this.reset(); return customer; }\<close>
\<close>

definition build :: "addr \<Rightarrow> customer_store \<Rightarrow> addr \<times> customer_store" where
  "build this s =
     (let b = builders s ! this in
      case new_object
             (Customer_new (CustomerBuilder.firstName b) (CustomerBuilder.lastName b)
                (CustomerBuilder.phoneNumber b) (CustomerBuilder.email b))
             (customers s) of
        (customer, cs) \<Rightarrow> (customer, CustomerBuilder_reset this (s\<lparr>customers := cs\<rparr>)))"

text \<open>
  \<^verbatim>\<open>class CustomerDirector { private builder!: ICustomerBuilder; ... }\<close>
  The field has no initialiser and the class no constructor: until \<^verbatim>\<open>setBuilder\<close> is
  called the field is \<^verbatim>\<open>undefined\<close> (\<open>None\<close>).
\<close>

record CustomerDirector =
  builder :: "addr option"

definition CustomerDirector_new :: CustomerDirector where
  "CustomerDirector_new = \<lparr>builder = None\<rparr>"

definition setBuilder :: "addr \<Rightarrow> CustomerDirector \<Rightarrow> CustomerDirector" where
  "setBuilder b this = this\<lparr>builder := Some b\<rparr>"

text \<open>
  \<^verbatim>\<open>return this.builder.setFirstName(firstName).setLastName(lastName).setEmail(email).build();\<close>
  Reading \<^verbatim>\<open>setFirstName\<close> from an undefined \<^verbatim>\<open>this.builder\<close> makes the runtime throw a
  \<^verbatim>\<open>TypeError\<close>; the methods contain no check of their own.  Each call of the chain
  is made on the reference the call before it returned.
\<close>

definition buildMinimalCustomer ::
  "CustomerDirector \<Rightarrow> string \<Rightarrow> string \<Rightarrow> string \<Rightarrow> customer_store
     \<Rightarrow> exn + (addr \<times> customer_store)" where
  "buildMinimalCustomer this firstName' lastName' email' s =
     (case builder this of
        None \<Rightarrow> Inl TypeError
      | Some b \<Rightarrow>
          (case setFirstName b firstName' s of (b1, s1) \<Rightarrow>
           case setLastName b1 lastName' s1 of (b2, s2) \<Rightarrow>
           case setEmail b2 email' s2 of (b3, s3) \<Rightarrow>
             Inr (build b3 s3)))"

definition buildFullCustomer ::
  "CustomerDirector \<Rightarrow> string \<Rightarrow> string \<Rightarrow> string \<Rightarrow> string \<Rightarrow> customer_store
     \<Rightarrow> exn + (addr \<times> customer_store)" where
  "buildFullCustomer this firstName' lastName' phoneNumber' email' s =
     (case builder this of
        None \<Rightarrow> Inl TypeError
      | Some b \<Rightarrow>
          (case setFirstName b firstName' s of (b1, s1) \<Rightarrow>
           case setLastName b1 lastName' s1 of (b2, s2) \<Rightarrow>
           case setPhoneNumber b2 phoneNumber' s2 of (b3, s3) \<Rightarrow>
           case setEmail b3 email' s3 of (b4, s4) \<Rightarrow>
             Inr (build b4 s4)))"

text \<open>
  A chain of setter calls \<^verbatim>\<open>b.setX(..).setY(..)...\<close>: each call is made on the
  reference returned by the one before.
\<close>

datatype setter_call =
  SetFirstName string | SetLastName string | SetPhoneNumber string | SetEmail string

fun call_setter :: "setter_call \<Rightarrow> addr \<Rightarrow> customer_store \<Rightarrow> addr \<times> customer_store" where
  "call_setter (SetFirstName v) this s = setFirstName this v s"
| "call_setter (SetLastName v) this s = setLastName this v s"
| "call_setter (SetPhoneNumber v) this s = setPhoneNumber this v s"
| "call_setter (SetEmail v) this s = setEmail this v s"

fun call_setters :: "setter_call list \<Rightarrow> addr \<Rightarrow> customer_store \<Rightarrow> addr \<times> customer_store" where
  "call_setters [] this s = (this, s)"
| "call_setters (c # cs) this s =
     (case call_setter c this s of (this', s') \<Rightarrow> call_setters cs this' s')"

text \<open>
  Any later use of a builder: setter calls, \<^verbatim>\<open>reset\<close> and \<^verbatim>\<open>build\<close> in any order.  The
  run returns the references of the customers built on the way.
\<close>

datatype builder_call = Setter setter_call | Reset | Build

fun call_builder :: "builder_call \<Rightarrow> addr \<Rightarrow> customer_store \<Rightarrow> addr list \<times> customer_store" where
  "call_builder (Setter c) this s = ([], snd (call_setter c this s))"
| "call_builder Reset this s = ([], CustomerBuilder_reset this s)"
| "call_builder Build this s = (case build this s of (customer, s') \<Rightarrow> ([customer], s'))"

fun call_builders ::
  "builder_call list \<Rightarrow> addr \<Rightarrow> customer_store \<Rightarrow> addr list \<times> customer_store" where
  "call_builders [] this s = ([], s)"
| "call_builders (c # cs) this s =
     (case call_builder c this s of (built, s') \<Rightarrow>
      case call_builders cs this s' of (built', s'') \<Rightarrow> (built @ built', s''))"

text \<open>A client writing to the fields of a customer it holds.\<close>

definition write_customer :: "addr \<Rightarrow> (Customer \<Rightarrow> Customer) \<Rightarrow> customer_store \<Rightarrow> customer_store" where
  "write_customer c f s = s\<lparr>customers := modify c f (customers s)\<rparr>"

text \<open>
  The arguments a chain of setter calls passes for one field, in call order, and the
  value those calls leave in the field: the last argument, or \<^verbatim>\<open>''\<close> when the field
  was never set.
\<close>

fun firstName_args :: "setter_call list \<Rightarrow> string list" where
  "firstName_args [] = []"
| "firstName_args (SetFirstName v # cs) = v # firstName_args cs"
| "firstName_args (_ # cs) = firstName_args cs"

fun lastName_args :: "setter_call list \<Rightarrow> string list" where
  "lastName_args [] = []"
| "lastName_args (SetLastName v # cs) = v # lastName_args cs"
| "lastName_args (_ # cs) = lastName_args cs"

fun phoneNumber_args :: "setter_call list \<Rightarrow> string list" where
  "phoneNumber_args [] = []"
| "phoneNumber_args (SetPhoneNumber v # cs) = v # phoneNumber_args cs"
| "phoneNumber_args (_ # cs) = phoneNumber_args cs"

fun email_args :: "setter_call list \<Rightarrow> string list" where
  "email_args [] = []"
| "email_args (SetEmail v # cs) = v # email_args cs"
| "email_args (_ # cs) = email_args cs"

fun last_or :: "string \<Rightarrow> string list \<Rightarrow> string" where
  "last_or d [] = d"
| "last_or d (v # vs) = last_or v vs"

text \<open>The field assignment that one setter call performs on the builder object.\<close>

definition set_field :: "setter_call \<Rightarrow> CustomerBuilder \<Rightarrow> CustomerBuilder" where
  "set_field c =
     (case c of
        SetFirstName v \<Rightarrow> (\<lambda>b. b\<lparr>CustomerBuilder.firstName := v\<rparr>)
      | SetLastName v \<Rightarrow> (\<lambda>b. b\<lparr>CustomerBuilder.lastName := v\<rparr>)
      | SetPhoneNumber v \<Rightarrow> (\<lambda>b. b\<lparr>CustomerBuilder.phoneNumber := v\<rparr>)
      | SetEmail v \<Rightarrow> (\<lambda>b. b\<lparr>CustomerBuilder.email := v\<rparr>))"


section \<open>The car factory: \<^verbatim>\<open>Car\<close> and \<^verbatim>\<open>CarFactory\<close>\<close>

text \<open>
  \<^verbatim>\<open>abstract class Car { public model: string; public productionYear: number; ... }\<close>
  with the three subclasses \<^verbatim>\<open>Sedan\<close>, \<^verbatim>\<open>SUV\<close> and \<^verbatim>\<open>Hatchback\<close>, whose constructors
  pass both arguments on to \<^verbatim>\<open>Car\<close>.  The class of a car is the constructor of the
  datatype.  The factory only stores the year, so the type of numbers is a parameter.
\<close>

datatype 'n Car =
  Sedan (model: string) (productionYear: 'n)
| SUV (model: string) (productionYear: 'n)
| Hatchback (model: string) (productionYear: 'n)

text \<open>
  \<^verbatim>\<open>String.prototype.toLowerCase\<close> belongs to the language runtime, not to the
  repository.  \<open>createCar\<close> takes it as its first argument, so what is proved of
  \<open>createCar\<close> holds for whatever the runtime computes.  For running the factory,
  \<open>toLowerCase\<close> below is the runtime's function on strings of ASCII characters: the
  letters \<^verbatim>\<open>A\<close> to \<^verbatim>\<open>Z\<close> (codes 65 to 90) move to \<^verbatim>\<open>a\<close> to \<^verbatim>\<open>z\<close>, every other
  character stays.
\<close>

definition toLowerCase_char :: "char \<Rightarrow> char" where
  "toLowerCase_char c =
     (let n = (of_char c :: nat) in if 65 \<le> n \<and> n \<le> 90 then char_of (n + 32) else c)"

definition toLowerCase :: "string \<Rightarrow> string" where
  "toLowerCase s = map toLowerCase_char s"

text \<open>
  \<^verbatim>\<open>static createCar(type, model, productionYear): Car {
    switch (type.toLowerCase()) {
      case 'sedan': return new Sedan(model, productionYear);
      case 'suv': return new SUV(model, productionYear);
      case 'hatchback': return new Hatchback(model, productionYear);
      default: throw new Error('Invalid car type');
    } }\<close>
  The declared type of \<^verbatim>\<open>type\<close> is \<^verbatim>\<open>'sedan' | 'suv' | 'hatchback'\<close>, which is erased
  at run time: the \<^verbatim>\<open>default\<close> branch is what a caller outside the type checker
  reaches, so the tag is any string.
\<close>

definition createCar :: "(string \<Rightarrow> string) \<Rightarrow> string \<Rightarrow> string \<Rightarrow> 'n \<Rightarrow> exn + 'n Car" where
  "createCar lower type model' productionYear' =
     (let tag = lower type in
      if tag = ''sedan'' then Inr (Sedan model' productionYear')
      else if tag = ''suv'' then Inr (SUV model' productionYear')
      else if tag = ''hatchback'' then Inr (Hatchback model' productionYear')
      else Inl (Error ''Invalid car type''))"


section \<open>The prototype: \<^verbatim>\<open>UserDetails\<close> and \<^verbatim>\<open>ConcretePrototype\<close>\<close>

text \<open>
  \<^verbatim>\<open>interface UserDetails { name: string; age: number; email: string; }\<close>
  A value of this interface is an object with identity: the prototype keeps a reference
  to it, \<^verbatim>\<open>getUserDetails\<close> hands the reference out, and the holder may write to the
  fields.  No arithmetic is done on \<^verbatim>\<open>age\<close>; the type of numbers is a parameter.
\<close>

record 'n UserDetails =
  name :: string
  age :: 'n
  email :: string

text \<open>
  \<^verbatim>\<open>class ConcretePrototype { private userDetails: UserDetails; ... }\<close>
  \<open>created_from\<close> is the internal prototype link of the object: \<open>None\<close> for an object made
  by \<^verbatim>\<open>new ConcretePrototype(..)\<close> (its link is the class prototype), \<open>Some p\<close> for an
  object made by \<^verbatim>\<open>Object.create(p)\<close>.  Both the constructor and \<^verbatim>\<open>clone\<close> assign the
  object's own \<^verbatim>\<open>userDetails\<close>, so reading the field never follows the link.
\<close>

record ConcretePrototype =
  created_from :: "addr option"
  userDetails :: addr

record 'n prototype_store =
  details :: "'n UserDetails list"
  prototypes :: "ConcretePrototype list"

text \<open>\<^verbatim>\<open>constructor(userDetails) { this.userDetails = userDetails; }\<close>\<close>

definition ConcretePrototype_new :: "addr \<Rightarrow> 'n prototype_store \<Rightarrow> addr \<times> 'n prototype_store" where
  "ConcretePrototype_new userDetails' s =
     (case new_object \<lparr>created_from = None, userDetails = userDetails'\<rparr> (prototypes s) of
        (this, ps) \<Rightarrow> (this, s\<lparr>prototypes := ps\<rparr>))"

text \<open>\<^verbatim>\<open>getUserDetails() { return this.userDetails; }\<close>\<close>

definition getUserDetails :: "addr \<Rightarrow> 'n prototype_store \<Rightarrow> addr" where
  "getUserDetails this s = userDetails (prototypes s ! this)"

text \<open>
  \<^verbatim>\<open>clone() { const clone = Object.create(this);
             clone.userDetails = { ...this.userDetails }; return clone; }\<close>
  The spread makes a new object with the same three field values.
\<close>

definition clone :: "addr \<Rightarrow> 'n prototype_store \<Rightarrow> addr \<times> 'n prototype_store" where
  "clone this s =
     (case new_object (details s ! userDetails (prototypes s ! this)) (details s) of
        (copy, ds) \<Rightarrow>
          (case new_object \<lparr>created_from = Some this, userDetails = copy\<rparr> (prototypes s) of
             (clone', ps) \<Rightarrow> (clone', s\<lparr>details := ds, prototypes := ps\<rparr>)))"

text \<open>A holder of a details object writing to its fields.\<close>

definition write_details ::
  "addr \<Rightarrow> ('n UserDetails \<Rightarrow> 'n UserDetails) \<Rightarrow> 'n prototype_store \<Rightarrow> 'n prototype_store" where
  "write_details d f s = s\<lparr>details := modify d f (details s)\<rparr>"

text \<open>
  A prototype \<open>this\<close> of the store \<open>s\<close>: the reference and the reference in its
  \<^verbatim>\<open>userDetails\<close> field both point to objects of the store.
\<close>

definition is_prototype :: "'n prototype_store \<Rightarrow> addr \<Rightarrow> bool" where
  "is_prototype s this \<longleftrightarrow>
     this < length (prototypes s) \<and> userDetails (prototypes s ! this) < length (details s)"


section \<open>Object stores: proofs\<close>

lemma modify_length [simp]: "length (modify a f xs) = length xs"
  by (simp add: modify_def)

lemma modify_nth_same [simp]: "a < length xs \<Longrightarrow> modify a f xs ! a = f (xs ! a)"
  by (simp add: modify_def)

lemma modify_nth_other [simp]: "a \<noteq> b \<Longrightarrow> modify a f xs ! b = xs ! b"
  by (simp add: modify_def)

lemma modify_modify: "modify a g (modify a f xs) = modify a (\<lambda>x. g (f x)) xs"
  by (cases "a < length xs") (simp_all add: modify_def list_update_beyond)


lemma prefix_nth: "prefix xs ys \<Longrightarrow> i < length xs \<Longrightarrow> ys ! i = xs ! i"
  by (auto simp: prefix_def nth_append)


section \<open>Part-list builder: proofs\<close>

lemma call_part_setter_modify:
  "call_part_setter c this h = modify (product this) (add (part_added c)) h"
  by (cases c) (simp_all add: setPartA_def setPartB_def setPartC_def)

lemma call_part_setters_length:
  "length (call_part_setters cs this h) = length h"
  by (induction cs arbitrary: h) (simp_all add: call_part_setter_modify modify_def)

lemma call_part_setters_parts:
  "product this < length h \<Longrightarrow>
   parts (call_part_setters cs this h ! product this) =
     parts (h ! product this) @ map part_added cs"
proof (induction cs arbitrary: h)
  case Nil
  then show ?case by simp
next
  case (Cons c cs)
  let ?h = "call_part_setter c this h"
  have len: "product this < length ?h"
    using Cons.prems by (simp add: call_part_setter_modify modify_def)
  have "parts (?h ! product this) = parts (h ! product this) @ [part_added c]"
    using Cons.prems by (simp add: call_part_setter_modify modify_def add_def)
  with Cons.IH [OF len] show ?case by simp
qed

lemma built_parts_after_reset:
  "built_parts cs (reset h) = map part_added cs"
proof -
  let ?b = "\<lparr>product = length h\<rparr>"
  let ?h = "h @ [Product_new]"
  have r: "reset h = (?b, ?h)"
    by (simp add: reset_def new_object_def)
  have valid: "product ?b < length ?h" by simp
  have "parts (call_part_setters cs ?b ?h ! product ?b) = map part_added cs"
    using call_part_setters_parts [OF valid, of cs] by (simp add: Product_new_def)
  moreover have "product ?b < length (call_part_setters cs ?b ?h)"
    by (simp add: call_part_setters_length)
  ultimately show ?thesis
    by (simp add: built_parts_def r getProduct_def reset_def new_object_def nth_append)
qed

text \<open>
  C9.  \<^verbatim>\<open>getProduct\<close> returns a product whose parts are exactly the parts added by the
  setter calls made since the last reset, in the order of the calls: this holds for a
  builder fresh from its constructor, for a builder just after an explicit
  \<^verbatim>\<open>reset\<close>, and for a builder just after \<^verbatim>\<open>getProduct\<close>, whatever happened to the
  builder before.  With no setter call at all the parts list is empty.
\<close>

theorem getProduct_parts_since_reset:
  "built_parts cs (ConcreteBuilder_new h) = map part_added cs
   \<and> built_parts cs (reset h) = map part_added cs
   \<and> built_parts cs (snd (getProduct this h)) = map part_added cs
   \<and> built_parts [] (ConcreteBuilder_new h) = []
   \<and> built_parts [] (snd (getProduct this h)) = []"
  by (simp add: ConcreteBuilder_new_def built_parts_after_reset getProduct_def)


section \<open>Customer builder: proofs\<close>

lemma call_setter_eq:
  "call_setter c this s = (this, s\<lparr>builders := modify this (set_field c) (builders s)\<rparr>)"
  by (cases c) (simp_all add: set_field_def setFirstName_def setLastName_def setPhoneNumber_def setEmail_def)

lemma call_setters_eq:
  "call_setters cs this s = (this, s\<lparr>builders := modify this (fold set_field cs) (builders s)\<rparr>)"
proof (induction cs arbitrary: s)
  case Nil
  have "modify this id (builders s) = builders s"
    by (simp add: modify_def)
  then show ?case by (simp add: id_def)
next
  case (Cons c cs)
  show ?case
    by (simp add: call_setter_eq Cons.IH modify_modify)
qed

lemma fold_set_field_firstName:
  "CustomerBuilder.firstName (fold set_field cs b) = last_or (CustomerBuilder.firstName b) (firstName_args cs)"
  by (induction cs arbitrary: b rule: firstName_args.induct) (simp_all add: set_field_def)

lemma fold_set_field_lastName:
  "CustomerBuilder.lastName (fold set_field cs b) = last_or (CustomerBuilder.lastName b) (lastName_args cs)"
  by (induction cs arbitrary: b rule: lastName_args.induct) (simp_all add: set_field_def)

lemma fold_set_field_phoneNumber:
  "CustomerBuilder.phoneNumber (fold set_field cs b) = last_or (CustomerBuilder.phoneNumber b) (phoneNumber_args cs)"
  by (induction cs arbitrary: b rule: phoneNumber_args.induct) (simp_all add: set_field_def)

lemma fold_set_field_email:
  "CustomerBuilder.email (fold set_field cs b) = last_or (CustomerBuilder.email b) (email_args cs)"
  by (induction cs arbitrary: b rule: email_args.induct) (simp_all add: set_field_def)

lemma reset_fields:
  "b\<lparr>CustomerBuilder.firstName := '''', CustomerBuilder.lastName := '''',
     CustomerBuilder.phoneNumber := '''', CustomerBuilder.email := ''''\<rparr> = CustomerBuilder_init"
  by (cases b) (simp add: CustomerBuilder_init_def)

lemma CustomerBuilder_reset_eq:
  "CustomerBuilder_reset this s =
     s\<lparr>builders := modify this (\<lambda>b. CustomerBuilder_init) (builders s)\<rparr>"
  by (simp add: CustomerBuilder_reset_def reset_fields)

lemma build_eq:
  "build this s =
     (length (customers s),
      s\<lparr>customers := customers s @
         [Customer_new (CustomerBuilder.firstName (builders s ! this)) (CustomerBuilder.lastName (builders s ! this))
            (CustomerBuilder.phoneNumber (builders s ! this)) (CustomerBuilder.email (builders s ! this))],
        builders := modify this (\<lambda>b. CustomerBuilder_init) (builders s)\<rparr>)"
  by (simp add: build_def new_object_def CustomerBuilder_reset_eq Let_def)

text \<open>
  C6.  Each of the four setters returns the reference it was called on, so calls can
  be chained.  Calling a setter with \<open>v1\<close> and then, on the reference it returned, the
  same setter with \<open>v2\<close> gives the same reference and the same store as calling it
  with \<open>v2\<close> alone: the last write wins, and nothing fails.  On a builder of the
  store the setter writes its field and no other: afterwards the builder object is the
  one before with that field replaced, the field holds the value passed, and after two
  calls it holds the second value.
\<close>

theorem setters_chain_last_write_wins:
  "fst (setFirstName this v s) = this
   \<and> fst (setLastName this v s) = this
   \<and> fst (setPhoneNumber this v s) = this
   \<and> fst (setEmail this v s) = this
   \<and> (case setFirstName this v1 s of (b, s1) \<Rightarrow> setFirstName b v2 s1) = setFirstName this v2 s
   \<and> (case setLastName this v1 s of (b, s1) \<Rightarrow> setLastName b v2 s1) = setLastName this v2 s
   \<and> (case setPhoneNumber this v1 s of (b, s1) \<Rightarrow> setPhoneNumber b v2 s1) = setPhoneNumber this v2 s
   \<and> (case setEmail this v1 s of (b, s1) \<Rightarrow> setEmail b v2 s1) = setEmail this v2 s
   \<and> (this < length (builders s) \<longrightarrow>
         builders (snd (setFirstName this v s)) ! this
           = (builders s ! this)\<lparr>CustomerBuilder.firstName := v\<rparr>
       \<and> builders (snd (setLastName this v s)) ! this
           = (builders s ! this)\<lparr>CustomerBuilder.lastName := v\<rparr>
       \<and> builders (snd (setPhoneNumber this v s)) ! this
           = (builders s ! this)\<lparr>CustomerBuilder.phoneNumber := v\<rparr>
       \<and> builders (snd (setEmail this v s)) ! this
           = (builders s ! this)\<lparr>CustomerBuilder.email := v\<rparr>
       \<and> CustomerBuilder.firstName (builders (snd (setFirstName this v s)) ! this) = v
       \<and> CustomerBuilder.lastName (builders (snd (setLastName this v s)) ! this) = v
       \<and> CustomerBuilder.phoneNumber (builders (snd (setPhoneNumber this v s)) ! this) = v
       \<and> CustomerBuilder.email (builders (snd (setEmail this v s)) ! this) = v
       \<and> CustomerBuilder.firstName
            (builders (snd (case setFirstName this v1 s of (b, s1) \<Rightarrow> setFirstName b v2 s1)) ! this) = v2
       \<and> CustomerBuilder.lastName
            (builders (snd (case setLastName this v1 s of (b, s1) \<Rightarrow> setLastName b v2 s1)) ! this) = v2
       \<and> CustomerBuilder.phoneNumber
            (builders (snd (case setPhoneNumber this v1 s of (b, s1) \<Rightarrow> setPhoneNumber b v2 s1)) ! this) = v2
       \<and> CustomerBuilder.email
            (builders (snd (case setEmail this v1 s of (b, s1) \<Rightarrow> setEmail b v2 s1)) ! this) = v2)"
  by (simp add: setFirstName_def setLastName_def setPhoneNumber_def setEmail_def modify_modify)

theorem setters_chain_last_write_wins_witness:
  "(0::nat) < length (builders \<lparr>builders = [CustomerBuilder_init], customers = []\<rparr>)
   \<and> CustomerBuilder.firstName
        (builders (snd (setFirstName 0 ''Ann'' \<lparr>builders = [CustomerBuilder_init], customers = []\<rparr>)) ! 0)
       = ''Ann''
   \<and> CustomerBuilder.email
        (builders (snd (setEmail 0 ''ann@x.com'' \<lparr>builders = [CustomerBuilder_init], customers = []\<rparr>)) ! 0)
       = ''ann@x.com''
   \<and> CustomerBuilder.lastName
        (builders (snd (case setLastName 0 ''Lee'' \<lparr>builders = [CustomerBuilder_init], customers = []\<rparr> of
                          (b, s1) \<Rightarrow> setLastName b ''Ray'' s1)) ! 0)
       = ''Ray''"
  using setters_chain_last_write_wins
    [where this = 0 and s = "\<lparr>builders = [CustomerBuilder_init], customers = []\<rparr>"
       and v = "''Ann''" and ?v1.0 = "''Lee''" and ?v2.0 = "''Ray''"]
    setters_chain_last_write_wins
    [where this = 0 and s = "\<lparr>builders = [CustomerBuilder_init], customers = []\<rparr>"
       and v = "''ann@x.com''" and ?v1.0 = "''Lee''" and ?v2.0 = "''Ray''"]
  by simp

text \<open>
  C1.  After any chain of setter calls on a builder of the store, \<^verbatim>\<open>build\<close> leaves
  the four fields of the builder at \<^verbatim>\<open>''\<close>; a second \<^verbatim>\<open>build\<close> with no setter call
  in between returns a customer whose four fields are \<^verbatim>\<open>''\<close>, and that customer is a
  new object, not the one returned before.
\<close>

theorem build_resets_builder:
  assumes "this < length (builders s)"
  shows "case call_setters cs this s of (b, s1) \<Rightarrow>
         case build b s1 of (c1, s2) \<Rightarrow>
         case build b s2 of (c2, s3) \<Rightarrow>
           builders s2 ! this = CustomerBuilder_init
           \<and> customers s3 ! c2 = Customer_new '''' '''' '''' ''''
           \<and> c2 \<noteq> c1
           \<and> builders s3 ! this = CustomerBuilder_init
           \<and> CustomerBuilder.firstName (builders s2 ! this) = ''''
           \<and> CustomerBuilder.lastName (builders s2 ! this) = ''''
           \<and> CustomerBuilder.phoneNumber (builders s2 ! this) = ''''
           \<and> CustomerBuilder.email (builders s2 ! this) = ''''
           \<and> Customer.firstName (customers s3 ! c2) = ''''
           \<and> Customer.lastName (customers s3 ! c2) = ''''
           \<and> Customer.phoneNumber (customers s3 ! c2) = ''''
           \<and> Customer.email (customers s3 ! c2) = ''''"
  using assms
  by (simp add: call_setters_eq build_eq CustomerBuilder_init_def Customer_new_def)

theorem build_resets_builder_witness:
  "(0::nat) < length (builders \<lparr>builders = [CustomerBuilder_init], customers = []\<rparr>)
   \<and> (case call_setters [SetFirstName ''Jane'', SetEmail ''jane@x.com''] 0
              \<lparr>builders = [CustomerBuilder_init], customers = []\<rparr> of (b, s1) \<Rightarrow>
       case build b s1 of (c1, s2) \<Rightarrow>
       case build b s2 of (c2, s3) \<Rightarrow>
           builders s2 ! 0 = CustomerBuilder_init
           \<and> customers s3 ! c2 = Customer_new '''' '''' '''' ''''
           \<and> c2 \<noteq> c1
           \<and> builders s3 ! 0 = CustomerBuilder_init
           \<and> CustomerBuilder.firstName (builders s2 ! 0) = ''''
           \<and> CustomerBuilder.lastName (builders s2 ! 0) = ''''
           \<and> CustomerBuilder.phoneNumber (builders s2 ! 0) = ''''
           \<and> CustomerBuilder.email (builders s2 ! 0) = ''''
           \<and> Customer.firstName (customers s3 ! c2) = ''''
           \<and> Customer.lastName (customers s3 ! c2) = ''''
           \<and> Customer.phoneNumber (customers s3 ! c2) = ''''
           \<and> Customer.email (customers s3 ! c2) = '''')"
proof
  show h: "(0::nat) < length (builders \<lparr>builders = [CustomerBuilder_init], customers = []\<rparr>)"
    by simp
  show "case call_setters [SetFirstName ''Jane'', SetEmail ''jane@x.com''] 0
              \<lparr>builders = [CustomerBuilder_init], customers = []\<rparr> of (b, s1) \<Rightarrow>
       case build b s1 of (c1, s2) \<Rightarrow>
       case build b s2 of (c2, s3) \<Rightarrow>
           builders s2 ! 0 = CustomerBuilder_init
           \<and> customers s3 ! c2 = Customer_new '''' '''' '''' ''''
           \<and> c2 \<noteq> c1
           \<and> builders s3 ! 0 = CustomerBuilder_init
           \<and> CustomerBuilder.firstName (builders s2 ! 0) = ''''
           \<and> CustomerBuilder.lastName (builders s2 ! 0) = ''''
           \<and> CustomerBuilder.phoneNumber (builders s2 ! 0) = ''''
           \<and> CustomerBuilder.email (builders s2 ! 0) = ''''
           \<and> Customer.firstName (customers s3 ! c2) = ''''
           \<and> Customer.lastName (customers s3 ! c2) = ''''
           \<and> Customer.phoneNumber (customers s3 ! c2) = ''''
           \<and> Customer.email (customers s3 ! c2) = ''''"
    by (rule build_resets_builder [OF h])
qed

text \<open>
  C8.  \<^verbatim>\<open>build\<close> checks nothing: the setters and \<^verbatim>\<open>build\<close> contain no \<^verbatim>\<open>throw\<close>, and
  their embeddings have no failing branch.  On a new builder, after any chain of setter
  calls (the empty chain too), \<^verbatim>\<open>build\<close> returns a customer of the store in which each
  field holds the last value passed for it, and \<^verbatim>\<open>''\<close> when the field was never set.
  The same holds when the builder is used again after a \<^verbatim>\<open>build\<close>: only the calls
  made since then count.
\<close>

theorem build_defaults_unset_fields:
  "(case CustomerBuilder_new s0 of (this, s) \<Rightarrow>
    case call_setters cs this s of (b, s1) \<Rightarrow>
    case build b s1 of (c, s2) \<Rightarrow>
      c < length (customers s2)
      \<and> customers s2 ! c =
          Customer_new (last_or '''' (firstName_args cs)) (last_or '''' (lastName_args cs))
            (last_or '''' (phoneNumber_args cs)) (last_or '''' (email_args cs))
      \<and> Customer.firstName (customers s2 ! c) = last_or '''' (firstName_args cs)
      \<and> Customer.lastName (customers s2 ! c) = last_or '''' (lastName_args cs)
      \<and> Customer.phoneNumber (customers s2 ! c) = last_or '''' (phoneNumber_args cs)
      \<and> Customer.email (customers s2 ! c) = last_or '''' (email_args cs))
   \<and> (case CustomerBuilder_new s0 of (this, s) \<Rightarrow>
      case call_setters [] this s of (b, s1) \<Rightarrow>
      case build b s1 of (c, s2) \<Rightarrow>
        c < length (customers s2) \<and> customers s2 ! c = Customer_new '''' '''' '''' ''''
        \<and> Customer.firstName (customers s2 ! c) = ''''
        \<and> Customer.lastName (customers s2 ! c) = ''''
        \<and> Customer.phoneNumber (customers s2 ! c) = ''''
        \<and> Customer.email (customers s2 ! c) = '''')
   \<and> (case CustomerBuilder_new s0 of (this, s) \<Rightarrow>
      case call_setters before this s of (b, s1) \<Rightarrow>
      case build b s1 of (c, s2) \<Rightarrow>
      case call_setters cs b s2 of (b', s3) \<Rightarrow>
      case build b' s3 of (c', s4) \<Rightarrow>
        c' < length (customers s4)
        \<and> customers s4 ! c' =
            Customer_new (last_or '''' (firstName_args cs)) (last_or '''' (lastName_args cs))
              (last_or '''' (phoneNumber_args cs)) (last_or '''' (email_args cs))
        \<and> Customer.firstName (customers s4 ! c') = last_or '''' (firstName_args cs)
        \<and> Customer.lastName (customers s4 ! c') = last_or '''' (lastName_args cs)
        \<and> Customer.phoneNumber (customers s4 ! c') = last_or '''' (phoneNumber_args cs)
        \<and> Customer.email (customers s4 ! c') = last_or '''' (email_args cs))"
  by (simp add: CustomerBuilder_new_def new_object_def call_setters_eq build_eq
      fold_set_field_firstName fold_set_field_lastName fold_set_field_phoneNumber
      fold_set_field_email CustomerBuilder_init_def Customer_new_def)

text \<open>
  C2.  A director bound to one builder of the store: \<^verbatim>\<open>buildFullCustomer("abc",
  "123", phone, "jane@x.com")\<close> followed by \<^verbatim>\<open>buildMinimalCustomer("John", "Doe",
  "john@x.com")\<close> both succeed and give two different customers; the first holds the
  four arguments of the first call, the second holds its three arguments and the empty
  string as phone number, whatever \<open>phone\<close> was.  Each field of both customers is
  read with its selector.
\<close>

theorem director_recipes_do_not_leak:
  assumes "b < length (builders s)"
  shows "\<exists>c1 s1 c2 s2.
           buildFullCustomer (setBuilder b d) ''abc'' ''123'' phone ''jane@x.com'' s = Inr (c1, s1)
         \<and> buildMinimalCustomer (setBuilder b d) ''John'' ''Doe'' ''john@x.com'' s1 = Inr (c2, s2)
         \<and> c1 \<noteq> c2
         \<and> Customer.firstName (customers s2 ! c1) = ''abc''
         \<and> Customer.lastName (customers s2 ! c1) = ''123''
         \<and> Customer.phoneNumber (customers s2 ! c1) = phone
         \<and> Customer.email (customers s2 ! c1) = ''jane@x.com''
         \<and> Customer.firstName (customers s2 ! c2) = ''John''
         \<and> Customer.lastName (customers s2 ! c2) = ''Doe''
         \<and> Customer.phoneNumber (customers s2 ! c2) = ''''
         \<and> Customer.email (customers s2 ! c2) = ''john@x.com''
         \<and> Customer.firstName (customers s1 ! c1) = ''abc''
         \<and> Customer.lastName (customers s1 ! c1) = ''123''
         \<and> Customer.phoneNumber (customers s1 ! c1) = phone
         \<and> Customer.email (customers s1 ! c1) = ''jane@x.com''
         \<and> customers s2 ! c1 = Customer_new ''abc'' ''123'' phone ''jane@x.com''
         \<and> customers s2 ! c2 = Customer_new ''John'' ''Doe'' '''' ''john@x.com''"
  using assms
  by (simp add: buildFullCustomer_def buildMinimalCustomer_def setBuilder_def
      setFirstName_def setLastName_def setPhoneNumber_def setEmail_def build_eq
      CustomerBuilder_init_def Customer_new_def nth_append)

theorem director_recipes_do_not_leak_witness:
  "(0::nat) < length (builders \<lparr>builders = [CustomerBuilder_init], customers = []\<rparr>)
   \<and> (\<exists>c1 s1 c2 s2.
           buildFullCustomer (setBuilder 0 CustomerDirector_new) ''abc'' ''123'' ''123-456-7890'' ''jane@x.com''
             \<lparr>builders = [CustomerBuilder_init], customers = []\<rparr> = Inr (c1, s1)
         \<and> buildMinimalCustomer (setBuilder 0 CustomerDirector_new) ''John'' ''Doe'' ''john@x.com'' s1 = Inr (c2, s2)
         \<and> c1 \<noteq> c2
         \<and> Customer.firstName (customers s2 ! c1) = ''abc''
         \<and> Customer.lastName (customers s2 ! c1) = ''123''
         \<and> Customer.phoneNumber (customers s2 ! c1) = ''123-456-7890''
         \<and> Customer.email (customers s2 ! c1) = ''jane@x.com''
         \<and> Customer.firstName (customers s2 ! c2) = ''John''
         \<and> Customer.lastName (customers s2 ! c2) = ''Doe''
         \<and> Customer.phoneNumber (customers s2 ! c2) = ''''
         \<and> Customer.email (customers s2 ! c2) = ''john@x.com''
         \<and> Customer.firstName (customers s1 ! c1) = ''abc''
         \<and> Customer.lastName (customers s1 ! c1) = ''123''
         \<and> Customer.phoneNumber (customers s1 ! c1) = ''123-456-7890''
         \<and> Customer.email (customers s1 ! c1) = ''jane@x.com''
         \<and> customers s2 ! c1 = Customer_new ''abc'' ''123'' ''123-456-7890'' ''jane@x.com''
         \<and> customers s2 ! c2 = Customer_new ''John'' ''Doe'' '''' ''john@x.com'')"
proof
  show h: "(0::nat) < length (builders \<lparr>builders = [CustomerBuilder_init], customers = []\<rparr>)"
    by simp
  show "\<exists>c1 s1 c2 s2.
           buildFullCustomer (setBuilder 0 CustomerDirector_new) ''abc'' ''123'' ''123-456-7890'' ''jane@x.com''
             \<lparr>builders = [CustomerBuilder_init], customers = []\<rparr> = Inr (c1, s1)
         \<and> buildMinimalCustomer (setBuilder 0 CustomerDirector_new) ''John'' ''Doe'' ''john@x.com'' s1 = Inr (c2, s2)
         \<and> c1 \<noteq> c2
         \<and> Customer.firstName (customers s2 ! c1) = ''abc''
         \<and> Customer.lastName (customers s2 ! c1) = ''123''
         \<and> Customer.phoneNumber (customers s2 ! c1) = ''123-456-7890''
         \<and> Customer.email (customers s2 ! c1) = ''jane@x.com''
         \<and> Customer.firstName (customers s2 ! c2) = ''John''
         \<and> Customer.lastName (customers s2 ! c2) = ''Doe''
         \<and> Customer.phoneNumber (customers s2 ! c2) = ''''
         \<and> Customer.email (customers s2 ! c2) = ''john@x.com''
         \<and> Customer.firstName (customers s1 ! c1) = ''abc''
         \<and> Customer.lastName (customers s1 ! c1) = ''123''
         \<and> Customer.phoneNumber (customers s1 ! c1) = ''123-456-7890''
         \<and> Customer.email (customers s1 ! c1) = ''jane@x.com''
         \<and> customers s2 ! c1 = Customer_new ''abc'' ''123'' ''123-456-7890'' ''jane@x.com''
         \<and> customers s2 ! c2 = Customer_new ''John'' ''Doe'' '''' ''john@x.com''"
    by (rule director_recipes_do_not_leak [OF h])
qed

text \<open>
  C3, as the code has it.  On a director whose \<^verbatim>\<open>setBuilder\<close> was never called, both
  recipe methods fail with the \<^verbatim>\<open>TypeError\<close> that the runtime throws for the property
  read on the undefined \<^verbatim>\<open>builder\<close> field; no customer is returned and the store is
  not touched.
\<close>

theorem unbound_director_throws_TypeError:
  "buildMinimalCustomer CustomerDirector_new firstName' lastName' email' s = Inl TypeError
   \<and> buildFullCustomer CustomerDirector_new firstName' lastName' phoneNumber' email' s = Inl TypeError"
  by (simp add: buildMinimalCustomer_def buildFullCustomer_def CustomerDirector_new_def)

text \<open>
  C3, as stated, asks for a \<^verbatim>\<open>BuilderNotBoundError\<close> in place of the null dereference.
  On a new director and the empty store, \<^verbatim>\<open>buildMinimalCustomer("John", "Doe",
  "john@x.com")\<close> throws the \<^verbatim>\<open>TypeError\<close>, whose name is not
  \<^verbatim>\<open>BuilderNotBoundError\<close>.
\<close>

theorem unbound_director_counterexample:
  "buildMinimalCustomer CustomerDirector_new ''John'' ''Doe'' ''john@x.com''
     \<lparr>builders = [], customers = []\<rparr> = Inl TypeError
   \<and> exn_name TypeError \<noteq> ''BuilderNotBoundError''"
  by (simp add: buildMinimalCustomer_def CustomerDirector_new_def)

lemma call_builder_customers:
  "call_builder c this s = (built, s') \<Longrightarrow>
     prefix (customers s) (customers s')
     \<and> set built \<subseteq> {length (customers s) ..< length (customers s')}"
  by (cases c) (auto simp: call_setter_eq CustomerBuilder_reset_eq build_eq)

lemma call_builders_customers:
  "call_builders cs this s = (built, s') \<Longrightarrow>
     prefix (customers s) (customers s')
     \<and> set built \<subseteq> {length (customers s) ..< length (customers s')}"
proof (induction cs arbitrary: s built s')
  case Nil
  then show ?case by simp
next
  case (Cons c cs)
  obtain b1 s1 where one: "call_builder c this s = (b1, s1)"
    by (cases "call_builder c this s")
  obtain b2 s2 where rest: "call_builders cs this s1 = (b2, s2)"
    by (cases "call_builders cs this s1")
  from Cons.prems one rest have res: "built = b1 @ b2" "s' = s2"
    by simp_all
  note p1 = call_builder_customers [OF one]
  note p2 = Cons.IH [OF rest]
  have len: "length (customers s) \<le> length (customers s1)" "length (customers s1) \<le> length (customers s2)"
    using p1 p2 by (auto dest: prefix_length_le)
  have "prefix (customers s) (customers s2)"
    using p1 p2 by (auto intro: prefix_order.trans)
  moreover have "set (b1 @ b2) \<subseteq> {length (customers s) ..< length (customers s2)}"
    using p1 p2 len by auto
  ultimately show ?case by (simp add: res)
qed

text \<open>
  C7.  Let \<^verbatim>\<open>build\<close> return the customer \<open>c\<close>.  Whatever is done with the same
  builder afterwards (setter calls, \<^verbatim>\<open>reset\<close>, further \<^verbatim>\<open>build\<close> calls, in any order),
  the fields of \<open>c\<close> stay as they were; \<open>c\<close> is none of the customers built later,
  so a write to the fields of a later customer leaves \<open>c\<close> as it was; and a write to
  the fields of \<open>c\<close> leaves every builder as it was.
\<close>

theorem built_customer_is_independent:
  "case build this s of (c, s1) \<Rightarrow>
   case call_builders calls this s1 of (later, s2) \<Rightarrow>
     c < length (customers s1)
     \<and> customers s2 ! c = customers s1 ! c
     \<and> c \<notin> set later
     \<and> (\<forall>c' f. c' \<in> set later \<longrightarrow> customers (write_customer c' f s2) ! c = customers s1 ! c)
     \<and> (\<forall>f. builders (write_customer c f s2) = builders s2)"
proof -
  obtain c s1 where b: "build this s = (c, s1)"
    by (cases "build this s")
  obtain later s2 where r: "call_builders calls this s1 = (later, s2)"
    by (cases "call_builders calls this s1")
  have c: "c < length (customers s1)"
    using b by (auto simp: build_eq)
  note p = call_builders_customers [OF r]
  have same: "customers s2 ! c = customers s1 ! c"
    using p c by (simp add: prefix_nth)
  have fresh: "c \<notin> set later"
    using p c by auto
  have "customers (write_customer c' f s2) ! c = customers s1 ! c" if "c' \<in> set later" for c' f
  proof -
    from that fresh have "c' \<noteq> c" by auto
    then show ?thesis by (simp add: write_customer_def same)
  qed
  then show ?thesis
    using c same fresh by (simp add: b r write_customer_def)
qed

theorem built_customer_is_independent_witness:
  "fst (build 0 \<lparr>builders = [CustomerBuilder_init], customers = []\<rparr>) = 0
   \<and> fst (call_builders [Setter (SetFirstName ''Eve''), Build, Reset] 0
            (snd (build 0 \<lparr>builders = [CustomerBuilder_init], customers = []\<rparr>))) = [1]
   \<and> (1::nat) \<in> set [1]
   \<and> customers
        (write_customer 1 (\<lambda>c. c\<lparr>Customer.firstName := ''Mallory''\<rparr>)
           (snd (call_builders [Setter (SetFirstName ''Eve''), Build, Reset] 0
              (snd (build 0 \<lparr>builders = [CustomerBuilder_init], customers = []\<rparr>))))) ! 0
       = Customer_new '''' '''' '''' ''''"
  using built_customer_is_independent
    [where this = 0 and s = "\<lparr>builders = [CustomerBuilder_init], customers = []\<rparr>"
       and calls = "[Setter (SetFirstName ''Eve''), Build, Reset]"]
  by (simp add: build_eq call_setter_eq CustomerBuilder_reset_eq CustomerBuilder_init_def
      write_customer_def modify_def)


section \<open>Car factory: proofs\<close>

text \<open>
  C5.  The tag is looked up by its lower-case form: a tag whose lower-case form is
  \<^verbatim>\<open>sedan\<close>, \<^verbatim>\<open>suv\<close> or \<^verbatim>\<open>hatchback\<close> gives a car of that class with exactly the
  model and the year passed in.  \<^verbatim>\<open>createCar("sedan", "Toyota Camry", 2020)\<close> is a
  \<^verbatim>\<open>Sedan\<close> with model \<^verbatim>\<open>Toyota Camry\<close> and year 2020, and no result for the tag
  \<^verbatim>\<open>sedan\<close> equals a result for the tag \<^verbatim>\<open>suv\<close>.
\<close>

theorem createCar_case_insensitive:
  "(lower type = ''sedan'' \<longrightarrow> createCar lower type m y = Inr (Sedan m y))
   \<and> (lower type = ''suv'' \<longrightarrow> createCar lower type m y = Inr (SUV m y))
   \<and> (lower type = ''hatchback'' \<longrightarrow> createCar lower type m y = Inr (Hatchback m y))
   \<and> createCar toLowerCase ''sedan'' ''Toyota Camry'' (2020::int) = Inr (Sedan ''Toyota Camry'' 2020)
   \<and> model (Sedan ''Toyota Camry'' (2020::int)) = ''Toyota Camry''
   \<and> productionYear (Sedan ''Toyota Camry'' (2020::int)) = 2020
   \<and> createCar toLowerCase ''sedan'' m y \<noteq> createCar toLowerCase ''suv'' m' y'"
proof -
  have sedan: "toLowerCase ''sedan'' = ''sedan''" by code_simp
  have suv: "toLowerCase ''suv'' = ''suv''" by code_simp
  show ?thesis
    by (simp add: createCar_def sedan suv)
qed

theorem createCar_case_insensitive_witness:
  "toLowerCase ''SEDAN'' = ''sedan''
   \<and> createCar toLowerCase ''SEDAN'' ''Toyota Camry'' (2020::int) = Inr (Sedan ''Toyota Camry'' 2020)
   \<and> toLowerCase ''Suv'' = ''suv''
   \<and> createCar toLowerCase ''Suv'' ''Honda CR-V'' (2021::int) = Inr (SUV ''Honda CR-V'' 2021)
   \<and> toLowerCase ''hatchBack'' = ''hatchback''
   \<and> createCar toLowerCase ''hatchBack'' ''Volkswagen Golf'' (2019::int) = Inr (Hatchback ''Volkswagen Golf'' 2019)"
proof -
  have sedan: "toLowerCase ''SEDAN'' = ''sedan''" by code_simp
  have suv: "toLowerCase ''Suv'' = ''suv''" by code_simp
  have hatchback: "toLowerCase ''hatchBack'' = ''hatchback''" by code_simp
  show ?thesis
    using sedan suv hatchback
      createCar_case_insensitive
        [where lower = toLowerCase and type = "''SEDAN''" and m = "''Toyota Camry''" and y = "2020::int"]
      createCar_case_insensitive
        [where lower = toLowerCase and type = "''Suv''" and m = "''Honda CR-V''" and y = "2021::int"]
      createCar_case_insensitive
        [where lower = toLowerCase and type = "''hatchBack''" and m = "''Volkswagen Golf''" and y = "2019::int"]
    by simp
qed

text \<open>
  C4, as the code has it.  For a tag whose lower-case form is none of the three
  registered ones, \<^verbatim>\<open>createCar\<close> returns no car: it throws a plain \<^verbatim>\<open>Error\<close> with
  the fixed message \<^verbatim>\<open>Invalid car type\<close>.
\<close>

theorem createCar_unknown_tag:
  "lower type \<notin> {''sedan'', ''suv'', ''hatchback''} \<Longrightarrow>
     createCar lower type m y = Inl (Error ''Invalid car type'')"
  by (simp add: createCar_def)

theorem createCar_unknown_tag_witness:
  "toLowerCase ''minivan'' \<notin> {''sedan'', ''suv'', ''hatchback''}
   \<and> createCar toLowerCase ''minivan'' ''Kia Carnival'' (2022::int) = Inl (Error ''Invalid car type'')"
proof -
  have l: "toLowerCase ''minivan'' = ''minivan''" by code_simp
  have h: "toLowerCase ''minivan'' \<notin> {''sedan'', ''suv'', ''hatchback''}"
    by (simp add: l)
  show ?thesis
    using h createCar_unknown_tag
        [where lower = toLowerCase and type = "''minivan''" and m = "''Kia Carnival''" and y = "2022::int"]
    by simp
qed

text \<open>
  C4, as stated, asks for an \<^verbatim>\<open>UnknownVariantError\<close> that names the tag.  For the
  tag \<^verbatim>\<open>minivan\<close> the error thrown has the name \<^verbatim>\<open>Error\<close>, and its message does not
  contain \<^verbatim>\<open>minivan\<close>.
\<close>

theorem createCar_unknown_tag_counterexample:
  "createCar toLowerCase ''minivan'' ''Kia Carnival'' (2022::int) = Inl (Error ''Invalid car type'')
   \<and> exn_name (Error ''Invalid car type'') \<noteq> ''UnknownVariantError''
   \<and> \<not> sublist ''minivan'' ''Invalid car type''"
proof -
  have l: "toLowerCase ''minivan'' = ''minivan''" by code_simp
  have n: "\<not> sublist ''minivan'' ''Invalid car type''" by code_simp
  show ?thesis
    by (simp add: createCar_def l n)
qed


section \<open>Prototype: proofs\<close>

text \<open>
  C10.  For a prototype of the store, \<^verbatim>\<open>clone\<close> returns an object whose
  \<^verbatim>\<open>getUserDetails()\<close> has the same \<^verbatim>\<open>name\<close>, \<^verbatim>\<open>age\<close> and \<^verbatim>\<open>email\<close> as the
  original's had, in a details object of its own: the two references differ, the
  original keeps its details object with its values, a write to the fields of the
  clone's details leaves the original's details as they were, and a write to the
  original's leaves the clone's as they were.
\<close>

theorem clone_copies_details:
  assumes "is_prototype s this"
  shows "case clone this s of (c, s') \<Rightarrow>
     name (details s' ! getUserDetails c s') = name (details s ! getUserDetails this s)
     \<and> age (details s' ! getUserDetails c s') = age (details s ! getUserDetails this s)
     \<and> UserDetails.email (details s' ! getUserDetails c s') = UserDetails.email (details s ! getUserDetails this s)
     \<and> getUserDetails c s' \<noteq> getUserDetails this s'
     \<and> getUserDetails this s' = getUserDetails this s
     \<and> details s' ! getUserDetails this s' = details s ! getUserDetails this s
     \<and> (\<forall>f. details (write_details (getUserDetails c s') f s') ! getUserDetails this s'
             = details s' ! getUserDetails this s')
     \<and> (\<forall>f. details (write_details (getUserDetails this s') f s') ! getUserDetails c s'
             = details s' ! getUserDetails c s')"
  using assms
  by (simp add: is_prototype_def clone_def new_object_def getUserDetails_def write_details_def
      nth_append modify_def)

theorem clone_copies_details_witness:
  "is_prototype
      \<lparr>details = [\<lparr>name = ''Ann'', age = 30::int, email = ''ann@x.com''\<rparr>],
       prototypes = [\<lparr>created_from = None, userDetails = 0\<rparr>]\<rparr> 0
   \<and> name (details (snd (clone 0
         \<lparr>details = [\<lparr>name = ''Ann'', age = 30::int, email = ''ann@x.com''\<rparr>],
          prototypes = [\<lparr>created_from = None, userDetails = 0\<rparr>]\<rparr>)) ! 1) = ''Ann''
   \<and> name (details (write_details 1 (\<lambda>d. d\<lparr>name := ''Bob''\<rparr>) (snd (clone 0
         \<lparr>details = [\<lparr>name = ''Ann'', age = 30::int, email = ''ann@x.com''\<rparr>],
          prototypes = [\<lparr>created_from = None, userDetails = 0\<rparr>]\<rparr>))) ! 0) = ''Ann''"
  using clone_copies_details
    [where this = 0
       and s = "\<lparr>details = [\<lparr>name = ''Ann'', age = 30::int, email = ''ann@x.com''\<rparr>],
                 prototypes = [\<lparr>created_from = None, userDetails = 0\<rparr>]\<rparr>"]
  by (simp add: is_prototype_def clone_def new_object_def getUserDetails_def write_details_def
      modify_def)

end
